theory Spec2Isabelle
  imports Main "HOL-Library.Word"
begin

section \<open>Shared data model\<close>

type_synonym u32 = "32 word"
type_synonym u64 = "64 word"

text \<open>Pointers are addresses into an explicit store.\<close>

type_synonym addr = nat

text \<open>
  Modelled from the spec: the \<open>op\<close> package (the Operation tags) is not among the
  sources. The tags are the ones the specification enumerates, together with
  \<open>AliasBatchGet\<close>, which \<open>S3BatchDownload\<close> tests for.
\<close>

datatype Operation =
    Copy | Move | Delete | Download | Upload | LocalCopy | LocalDelete
  | ListOp | Size | Head | BatchDownload | BatchCopy | BatchDelete
  | AbortOnError | ShellExec | AliasBatchGet

text \<open>
  Modelled from the spec: the \<open>opt\<close> package is not among the sources. An
  OptionList is a collection of flag symbols with set semantics; \<open>Has\<close> is
  membership.
\<close>

datatype Option_flag =
    DeleteSource | IfNotExists | IfSizeDiffer | IfSourceNewer | Parents
  | Recursive | Help

type_synonym OptionList = "Option_flag list"

definition Has :: "OptionList \<Rightarrow> Option_flag \<Rightarrow> bool" where
  "Has opts f = (f \<in> set opts)"

text \<open>
  Errors are values. \<open>ErrInterrupted\<close> and \<open>ErrNilResult\<close> are the variables of
  core/s3.go; \<open>ErrDisplayedHelp\<close> is the variable \<open>Job.Run\<close> returns after printing
  help; \<open>UnhandledOperation\<close> is \<open>fmt.Errorf("unhandled operation %v", j.operation)\<close>;
  \<open>NotAllCompleted s n\<close> is
  \<open>fmt.Errorf("not all jobs completed successfully: %d/%d", s, subJobCounter)\<close>;
  \<open>BackendError\<close> stands for an error handed back by the SDK or by a handler.
\<close>

datatype error =
    ErrInterrupted
  | ErrNilResult
  | ErrDisplayedHelp
  | UnhandledOperation Operation
  | NotAllCompleted u32 u32
  | BackendError string

text \<open>Run-time panics of the Go runtime and of sync.WaitGroup.\<close>

datatype panic =
    IndexOutOfRange | NegativeWaitGroupCounter | WaitGroupMisuse | WaitGroupReused

section \<open>Paths and URLs\<close>

text \<open>\<open>strings.Split\<close> on a single separator character.\<close>

fun split_sep :: "char \<Rightarrow> string \<Rightarrow> string list" where
  "split_sep c [] = [[]]"
| "split_sep c (x # xs) =
     (if x = c then [] # split_sep c xs
      else (case split_sep c xs of
              [] \<Rightarrow> [[x]]
            | y # ys \<Rightarrow> (x # y) # ys))"

text \<open>\<open>strings.Join\<close>.\<close>

fun join_sep :: "string \<Rightarrow> string list \<Rightarrow> string" where
  "join_sep sep [] = []"
| "join_sep sep [e] = e"
| "join_sep sep (e # es) = e @ sep @ join_sep sep es"

text \<open>
  \<open>path.Clean\<close> of the Go library, by the rules of its documentation: empty and
  \<open>.\<close> elements are dropped, an inner \<open>..\<close> removes the element before it, a
  \<open>..\<close> at the start of a rooted path is dropped, and the empty result is
  \<open>.\<close>. \<open>out\<close> holds the elements kept so far, last first.
\<close>

fun clean_elems :: "bool \<Rightarrow> string list \<Rightarrow> string list \<Rightarrow> string list" where
  "clean_elems rooted [] out = rev out"
| "clean_elems rooted (e # es) out =
     (if e = [] \<or> e = ''.'' then clean_elems rooted es out
      else if e = ''..'' then
        (case out of
           [] \<Rightarrow> if rooted then clean_elems rooted es [] else clean_elems rooted es [e]
         | t # ts \<Rightarrow>
             if t = ''..'' then clean_elems rooted es (e # out)
             else clean_elems rooted es ts)
      else clean_elems rooted es (e # out))"

definition path_Clean :: "string \<Rightarrow> string" where
  "path_Clean path =
     (case path of
        [] \<Rightarrow> ''.''
      | c # _ \<Rightarrow>
          (let rooted = (c = CHR ''/'');
               body = join_sep ''/'' (clean_elems rooted (split_sep CHR ''/'' path) []);
               s = (if rooted then ''/'' @ body else body)
           in if s = [] then ''.'' else s))"

text \<open>
  \<open>path.Join\<close>: the elements are appended to the buffer with a slash between
  them, empty elements before the first non-empty one are skipped, and the
  result is cleaned; the join of empty elements only is the empty string.
\<close>

fun path_Join_loop :: "string list \<Rightarrow> string \<Rightarrow> string" where
  "path_Join_loop [] buf = buf"
| "path_Join_loop (e # es) buf =
     (if buf \<noteq> [] \<or> e \<noteq> []
      then path_Join_loop es ((if buf \<noteq> [] then buf @ ''/'' else buf) @ e)
      else path_Join_loop es buf)"

definition path_Join :: "string list \<Rightarrow> string" where
  "path_Join elem =
     (if concat elem = [] then [] else path_Clean (path_Join_loop elem []))"

text \<open>
  Modelled from the spec: the \<open>objurl\<close> package is not among the sources. An
  ObjectURL is a local path or a remote \<open>scheme://bucket/key\<close> reference with
  scheme, bucket, path, prefix and delimiter; it is remote if and only if its
  scheme is not \<open>file\<close>; \<open>Clone\<close> copies it.
\<close>

record ObjectURL =
  Scheme :: string
  Bucket :: string
  Path :: string
  Prefix :: string
  Delimiter :: string

definition IsRemote :: "ObjectURL \<Rightarrow> bool" where
  "IsRemote u = (Scheme u \<noteq> ''file'')"

definition Clone :: "ObjectURL \<Rightarrow> ObjectURL" where
  "Clone u = u"

text \<open>
  What \<open>S3BatchDownload\<close> calls and the sources do not define: \<open>filepath.Join\<close>
  and \<open>filepath.Dir\<close> of the platform, \<open>Base\<close> and \<open>Absolute\<close> of objurl, and
  \<open>GetParams\<close> of opt.
\<close>

record platform =
  filepath_Join :: "string list \<Rightarrow> string"
  filepath_Dir :: "string \<Rightarrow> string"
  Base :: "ObjectURL \<Rightarrow> string"
  Absolute :: "ObjectURL \<Rightarrow> string"
  GetParams :: "OptionList \<Rightarrow> string"

section \<open>Batch download (S3BatchDownload)\<close>

text \<open>\<open>storage.Object\<close>: the listed object with its URL.\<close>

record storage_Object =
  URL :: ObjectURL

text \<open>
  The job of this revision, with the fields \<open>newJob\<close> of the test file sets:
  command, operation, sources, options and destination (nil for none).
\<close>

record url_Job =
  command :: string
  operation :: Operation
  src :: "ObjectURL list"
  opts :: OptionList
  dst :: "ObjectURL option"

text \<open>
  Modelled from the spec: the struct \<open>Command\<close> and its method \<open>makeJob\<close> are
  not among the sources. A command carries its operation, options and
  destination; \<open>makeJob\<close> builds the job with the given verb, operation, source
  and destination, and the options of the command.
\<close>

record Command =
  operation :: Operation
  opts :: OptionList
  dst :: ObjectURL

definition makeJob ::
  "Command \<Rightarrow> string \<Rightarrow> Operation \<Rightarrow> ObjectURL \<Rightarrow> ObjectURL \<Rightarrow> url_Job" where
  "makeJob c cmd oper s d =
     \<lparr>url_Job.command = cmd, url_Job.operation = oper, url_Job.src = [s],
      url_Job.opts = Command.opts c, url_Job.dst = Some d\<rparr>"

text \<open>
  \<open>S3BatchDownload\<close>: the sub-job for one listed object, and the directory
  handed to \<open>os.MkdirAll\<close> (whose error is dropped).
\<close>

definition S3BatchDownload ::
  "platform \<Rightarrow> Command \<Rightarrow> storage_Object \<Rightarrow> url_Job \<times> string" where
  "S3BatchDownload pf cmnd object =
     (let cmd0 = (if Command.operation cmnd = AliasBatchGet then ''get'' else ''cp'');
          cmd1 = (if Has (Command.opts cmnd) DeleteSource then ''mv'' else cmd0);
          cmd = cmd1 @ GetParams pf (Command.opts cmnd);
          d = Command.dst cmnd;
          dstFn = (if Has (Command.opts cmnd) Parents
                   then Path (URL object) else Base pf (URL object));
          joinfn = (if IsRemote d then path_Join else filepath_Join pf);
          clone = Clone d;
          clone1 = clone\<lparr>Path := joinfn [Path clone, dstFn]\<rparr>;
          dir = filepath_Dir pf (Absolute pf clone1)
      in (makeJob cmnd cmd Download (URL object) clone1, dir))"

section \<open>storage: ListBuckets\<close>

text \<open>\<open>strings.HasPrefix(s, prefix)\<close>.\<close>

definition HasPrefix :: "string \<Rightarrow> string \<Rightarrow> bool" where
  "HasPrefix s pre = (length pre \<le> length s \<and> take (length pre) s = pre)"

text \<open>\<open>s3.Bucket\<close> of the AWS SDK.\<close>

record s3_Bucket =
  Name :: string

text \<open>
  The loop of \<open>ListBuckets\<close>: \<open>buckets\<close> is the slice built so far. The source
  appends \<open>prefix\<close>, not \<open>*b.Name\<close>.
\<close>

fun ListBuckets_loop :: "string \<Rightarrow> s3_Bucket list \<Rightarrow> string list \<Rightarrow> string list" where
  "ListBuckets_loop pre [] buckets = buckets"
| "ListBuckets_loop pre (b # bs) buckets =
     (if pre = [] \<or> HasPrefix (Name b) pre
      then ListBuckets_loop pre bs (buckets @ [pre])
      else ListBuckets_loop pre bs buckets)"

text \<open>
  \<open>ListBuckets\<close>: the first argument is what \<open>ListBucketsWithContext\<close> returned
  (an error, or the bucket list of the output).
\<close>

definition ListBuckets :: "error + s3_Bucket list \<Rightarrow> string \<Rightarrow> error + string list" where
  "ListBuckets api pre =
     (case api of
        Inl err \<Rightarrow> Inl err
      | Inr bs \<Rightarrow> Inr (ListBuckets_loop pre bs []))"

section \<open>storage: items of a listing\<close>

text \<open>
  \<open>s3.Object\<close> of the AWS SDK: the key and the size of a listed object (the
  size is nil in the object built for a common prefix).
\<close>

record s3_Object =
  Object_Key :: string
  Object_Size :: "int option"

text \<open>\<open>storage.Item\<close> as \<open>List\<close> and \<open>Head\<close> build it.\<close>

record Item =
  Content :: s3_Object
  Key :: string
  IsDirectory :: bool

section \<open>The S3 listers\<close>

text \<open>
  One page of \<open>ListObjectsV2\<close>: the common prefixes, the contents and the
  truncation flag.
\<close>

record ListObjectsV2Output =
  CommonPrefixes :: "string list"
  Contents :: "s3_Object list"
  IsTruncated :: bool

text \<open>
  The method \<open>Match\<close> of the URL is declared outside the sources; the listers
  take it as a parameter: the matched key and whether the key matched.
\<close>

type_synonym matcher = "string \<Rightarrow> string \<times> bool"

subsection \<open>storage.S3.List\<close>

text \<open>
  \<open>List\<close> makes the unbuffered channel \<open>itemChan\<close>, runs the pager, whose
  callback sends on the channel, and returns the channel afterwards. No other
  goroutine holds the channel before \<open>List\<close> returns, so the first send
  blocks for ever. A loop of the callback continues, blocks in a send, or
  panics: indexing the last byte of an empty matched key panics.
\<close>

datatype callback_result = Continues | BlocksSending "Item option" | Panics panic

fun List_prefixes :: "matcher \<Rightarrow> string list \<Rightarrow> callback_result" where
  "List_prefixes Match [] = Continues"
| "List_prefixes Match (c # cs) =
     (case Match c of
        (k, ok) \<Rightarrow>
          if \<not> ok then List_prefixes Match cs
          else BlocksSending
                 (Some \<lparr>Content = \<lparr>Object_Key = c, Object_Size = None\<rparr>,
                        Key = k, IsDirectory = True\<rparr>))"

fun List_contents :: "matcher \<Rightarrow> s3_Object list \<Rightarrow> callback_result" where
  "List_contents Match [] = Continues"
| "List_contents Match (c # cs) =
     (case Match (Object_Key c) of
        (k, ok) \<Rightarrow>
          if \<not> ok then List_contents Match cs
          else if k = [] then Panics IndexOutOfRange
          else BlocksSending
                 (Some \<lparr>Content = c, Key = k, IsDirectory = (last k = CHR ''/'')\<rparr>))"

definition List_page :: "matcher \<Rightarrow> ListObjectsV2Output \<Rightarrow> callback_result" where
  "List_page Match pg =
     (case List_prefixes Match (CommonPrefixes pg) of
        Continues \<Rightarrow>
          (case List_contents Match (Contents pg) of
             Continues \<Rightarrow> if \<not> IsTruncated pg then BlocksSending None else Continues
           | r \<Rightarrow> r)
      | r \<Rightarrow> r)"

text \<open>
  \<open>ListObjectsV2PagesWithContext\<close> calls the callback on each page it
  fetches; the callback of \<open>List\<close> returns true when it returns.
\<close>

fun List_pages :: "matcher \<Rightarrow> ListObjectsV2Output list \<Rightarrow> callback_result" where
  "List_pages Match [] = Continues"
| "List_pages Match (pg # pgs) =
     (case List_page Match pg of
        Continues \<Rightarrow> List_pages Match pgs
      | r \<Rightarrow> r)"

text \<open>
  \<open>List\<close> on the pages the SDK fetches and the error the pager returns: it
  returns (the error, and the channel, on which nothing was sent, when the
  error is nil), or it is blocked for ever in the send of an item, nothing
  having been received, or it panics.
\<close>

datatype List_result =
  ListReturns "error option" | ListBlocked "Item option" | ListPanics panic

definition List :: "matcher \<Rightarrow> ListObjectsV2Output list \<Rightarrow> error option \<Rightarrow> List_result" where
  "List Match pages err =
     (case List_pages Match pages of
        Continues \<Rightarrow> ListReturns err
      | BlocksSending x \<Rightarrow> ListBlocked x
      | Panics e \<Rightarrow> ListPanics e)"

subsection \<open>core.s3list\<close>

record s3listItem =
  Object :: s3_Object
  key :: string
  isDirectory :: bool

text \<open>
  \<open>s3list\<close> sends on a channel its caller made and receives from: a receiver
  takes every item offered. The context is looked at by \<open>isCanceled\<close> and by
  the select of \<open>emit\<close>. The looks are numbered from 0; a context is \<open>None\<close>
  when it is never cancelled and \<open>Some k\<close> when it is done from look \<open>k\<close> on.
  When the context is done and the send is ready too, the select of \<open>emit\<close>
  takes either: \<open>pick t\<close> tells whether look \<open>t\<close> takes \<open>ctx.Done()\<close>.
\<close>

type_synonym ctx = "nat option"

definition ctx_Done :: "ctx \<Rightarrow> nat \<Rightarrow> bool" where
  "ctx_Done c t = (case c of None \<Rightarrow> False | Some k \<Rightarrow> k \<le> t)"

record s3list_state =
  emitChan :: "s3listItem option list"
  canceled :: bool
  looks :: nat

definition isCanceled :: "ctx \<Rightarrow> s3list_state \<Rightarrow> bool \<times> s3list_state" where
  "isCanceled c st =
     (if ctx_Done c (looks st)
      then (True, st\<lparr>canceled := True, looks := Suc (looks st)\<rparr>)
      else (False, st\<lparr>looks := Suc (looks st)\<rparr>))"

definition emit ::
  "ctx \<Rightarrow> (nat \<Rightarrow> bool) \<Rightarrow> s3listItem option \<Rightarrow> s3list_state \<Rightarrow> bool \<times> s3list_state" where
  "emit c pick item st =
     (if ctx_Done c (looks st) \<and> pick (looks st)
      then (False, st\<lparr>canceled := True, looks := Suc (looks st)\<rparr>)
      else (True, st\<lparr>emitChan := emitChan st @ [item], looks := Suc (looks st)\<rparr>))"

text \<open>
  The loops of the page callback: the result is false when an \<open>emit\<close> failed
  and the callback returns false; a panic comes with the state it left.
\<close>

fun s3list_prefixes ::
  "ctx \<Rightarrow> (nat \<Rightarrow> bool) \<Rightarrow> matcher \<Rightarrow> string list \<Rightarrow> s3list_state \<Rightarrow> bool \<times> s3list_state" where
  "s3list_prefixes c pick Match [] st = (True, st)"
| "s3list_prefixes c pick Match (x # xs) st =
     (case Match x of
        (k, ok) \<Rightarrow>
          if \<not> ok then s3list_prefixes c pick Match xs st
          else
            (case emit c pick (Some \<lparr>Object = \<lparr>Object_Key = x, Object_Size = None\<rparr>,
                                      key = k, isDirectory = True\<rparr>) st of
               (sent, st1) \<Rightarrow>
                 if \<not> sent then (False, st1) else s3list_prefixes c pick Match xs st1))"

fun s3list_contents ::
  "ctx \<Rightarrow> (nat \<Rightarrow> bool) \<Rightarrow> matcher \<Rightarrow> s3_Object list \<Rightarrow> s3list_state \<Rightarrow>
   (panic \<times> s3list_state) + (bool \<times> s3list_state)" where
  "s3list_contents c pick Match [] st = Inr (True, st)"
| "s3list_contents c pick Match (x # xs) st =
     (case Match (Object_Key x) of
        (k, ok) \<Rightarrow>
          if \<not> ok then s3list_contents c pick Match xs st
          else if k = [] then Inl (IndexOutOfRange, st)
          else
            (case emit c pick (Some \<lparr>Object = x, key = k,
                                      isDirectory = (last k = CHR ''/'')\<rparr>) st of
               (sent, st1) \<Rightarrow>
                 if \<not> sent then Inr (False, st1)
                 else s3list_contents c pick Match xs st1))"

definition s3list_page ::
  "ctx \<Rightarrow> (nat \<Rightarrow> bool) \<Rightarrow> matcher \<Rightarrow> ListObjectsV2Output \<Rightarrow> s3list_state \<Rightarrow>
   (panic \<times> s3list_state) + (bool \<times> s3list_state)" where
  "s3list_page c pick Match pg st =
     (case isCanceled c st of
        (True, st0) \<Rightarrow> Inr (False, st0)
      | (False, st0) \<Rightarrow>
          (case s3list_prefixes c pick Match (CommonPrefixes pg) st0 of
             (False, st1) \<Rightarrow> Inr (False, st1)
           | (True, st1) \<Rightarrow>
               (case s3list_contents c pick Match (Contents pg) st1 of
                  Inl e \<Rightarrow> Inl e
                | Inr (False, st2) \<Rightarrow> Inr (False, st2)
                | Inr (True, st2) \<Rightarrow>
                    (let st3 = (if \<not> IsTruncated pg then snd (emit c pick None st2) else st2);
                         (cd, st4) = isCanceled c st3
                     in Inr (\<not> cd, st4)))))"

text \<open>The pager stops at the first page whose callback returns false.\<close>

fun s3list_pages ::
  "ctx \<Rightarrow> (nat \<Rightarrow> bool) \<Rightarrow> matcher \<Rightarrow> ListObjectsV2Output list \<Rightarrow> s3list_state \<Rightarrow>
   (panic \<times> s3list_state) + s3list_state" where
  "s3list_pages c pick Match [] st = Inr st"
| "s3list_pages c pick Match (pg # pgs) st =
     (case s3list_page c pick Match pg st of
        Inl e \<Rightarrow> Inl e
      | Inr (go, st1) \<Rightarrow> if go then s3list_pages c pick Match pgs st1 else Inr st1)"

text \<open>
  \<open>s3list\<close>: a panic with what had been sent on \<open>emitChan\<close> before it, or what
  was sent and the returned error, \<open>ErrInterrupted\<close> when the pager returned
  nil and the cancellation was seen. \<open>sent_by\<close> is what was sent in either
  case.
\<close>

definition s3list ::
  "ctx \<Rightarrow> (nat \<Rightarrow> bool) \<Rightarrow> matcher \<Rightarrow> ListObjectsV2Output list \<Rightarrow> error option \<Rightarrow>
   (panic \<times> s3listItem option list) + (s3listItem option list \<times> error option)" where
  "s3list c pick Match pages err =
     (case s3list_pages c pick Match pages \<lparr>emitChan = [], canceled = False, looks = 0\<rparr> of
        Inl (e, st) \<Rightarrow> Inl (e, emitChan st)
      | Inr st \<Rightarrow>
          Inr (emitChan st, if err = None \<and> canceled st then Some ErrInterrupted else err))"

definition sent_by ::
  "(panic \<times> s3listItem option list) + (s3listItem option list \<times> error option) \<Rightarrow>
   s3listItem option list" where
  "sent_by r = (case r of Inl (e, xs) \<Rightarrow> xs | Inr (xs, err) \<Rightarrow> xs)"

section \<open>core/job.go\<close>

text \<open>
  \<open>JobArgument\<close> is declared outside the sources; job.go reads its field \<open>arg\<close>.
\<close>

record JobArgument =
  arg :: string

text \<open>
  The struct \<open>Job\<close>. Pointer fields hold addresses; the three counters shared
  with sub-jobs are pointers to uint32 in the source.
\<close>

record Job =
  sourceDesc :: string
  command :: string
  operation :: Operation
  args :: "JobArgument list"
  opts :: OptionList
  successCommand :: "addr option"
  failCommand :: "addr option"
  subJobData :: "addr option"
  isSubJob :: bool
  numSuccess_ptr :: "addr option"
  numFails_ptr :: "addr option"
  numAcceptableFails_ptr :: "addr option"

text \<open>
  \<open>sync.WaitGroup\<close> of the Go library keeps a counter (an int32, read here with
  \<open>sint\<close>) and the number of waiters (a uint32) in one word that it changes
  atomically.
\<close>

record WaitGroup_state =
  wg_counter :: "32 word"
  wg_waiters :: "32 word"

text \<open>
  \<open>subjobStatsType\<close>: the embedded \<open>sync.WaitGroup\<close> and the uint32
  \<open>numSuccess\<close>.
\<close>

record subjobStatsType =
  WaitGroup :: WaitGroup_state
  numSuccess :: u32

type_synonym stats_heap = "addr \<Rightarrow> subjobStatsType"

text \<open>
  \<open>WaitGroup.Add(delta)\<close> in its two steps. The first is the atomic addition
  of \<open>delta\<close> to the counter (it wraps in 32 bits) and the checks on the new
  state: a negative counter panics; a positive \<open>delta\<close> that finds waiters
  and leaves the counter at \<open>delta\<close> panics (Add called concurrently with
  Wait); a positive counter, or no waiter, returns; otherwise the counter has
  reached zero with waiters, and the caller goes on to wake them.
\<close>

datatype Add_result = AddPanics panic | AddReturns | AddWakes

definition wg_Add_first :: "int \<Rightarrow> WaitGroup_state \<Rightarrow> WaitGroup_state \<times> Add_result" where
  "wg_Add_first delta wg =
     (let c = wg_counter wg + of_int delta;
          wg1 = wg\<lparr>wg_counter := c\<rparr>;
          v = sint c;
          w = wg_waiters wg
      in if v < 0 then (wg1, AddPanics NegativeWaitGroupCounter)
         else if w \<noteq> 0 \<and> delta > 0 \<and> v = sint (of_int delta :: 32 word)
           then (wg1, AddPanics WaitGroupMisuse)
         else if v > 0 \<or> w = 0 then (wg1, AddReturns)
         else (wg1, AddWakes))"

text \<open>
  The second step: \<open>seen\<close> is the state the first step left, \<open>now\<close> the state
  loaded again. A changed state panics; otherwise the state is reset to zero
  and the waiters are released.
\<close>

definition wg_Add_second ::
  "WaitGroup_state \<Rightarrow> WaitGroup_state \<Rightarrow> WaitGroup_state \<times> panic option" where
  "wg_Add_second seen now =
     (if now \<noteq> seen then (now, Some WaitGroupMisuse)
      else (\<lparr>wg_counter = 0, wg_waiters = 0\<rparr>, None))"

text \<open>One call of \<open>Add\<close> that no other goroutine interleaves with.\<close>

definition wg_Add :: "int \<Rightarrow> WaitGroup_state \<Rightarrow> WaitGroup_state \<times> panic option" where
  "wg_Add delta wg =
     (case wg_Add_first delta wg of
        (wg1, AddPanics e) \<Rightarrow> (wg1, Some e)
      | (wg1, AddReturns) \<Rightarrow> (wg1, None)
      | (wg1, AddWakes) \<Rightarrow> wg_Add_second wg1 wg1)"

text \<open>
  \<open>MakeSubJob\<close>: sourceDesc is copied, the three counters are linked.
\<close>

definition MakeSubJob ::
  "Job \<Rightarrow> string \<Rightarrow> Operation \<Rightarrow> JobArgument list \<Rightarrow> OptionList \<Rightarrow> Job" where
  "MakeSubJob j cmd oper as os =
     \<lparr>sourceDesc = sourceDesc j, command = cmd, operation = oper, args = as,
      opts = os, successCommand = None, failCommand = None, subJobData = None,
      isSubJob = True, numSuccess_ptr = numSuccess_ptr j,
      numFails_ptr = numFails_ptr j,
      numAcceptableFails_ptr = numAcceptableFails_ptr j\<rparr>"

text \<open>
  \<open>Notify\<close>: nothing for a nil \<open>subJobData\<close>; otherwise the atomic increment of
  \<open>numSuccess\<close> on success (\<open>count_success\<close>), then \<open>Done()\<close>, which is
  \<open>Add(-1)\<close>. The result is the store after the call and the panic \<open>Done()\<close>
  raised, if any. This is one call that no other goroutine interleaves with.
\<close>

definition count_success :: "bool \<Rightarrow> addr \<Rightarrow> stats_heap \<Rightarrow> stats_heap" where
  "count_success success p h =
     (if success then h(p := (h p)\<lparr>numSuccess := numSuccess (h p) + 1\<rparr>) else h)"

definition Notify :: "bool \<Rightarrow> Job \<Rightarrow> stats_heap \<Rightarrow> stats_heap \<times> panic option" where
  "Notify success j h =
     (case subJobData j of
        None \<Rightarrow> (h, None)
      | Some p \<Rightarrow>
          (let h1 = count_success success p h;
               (wg, pn) = wg_Add (- 1) (WaitGroup (h1 p))
           in (h1(p := (h1 p)\<lparr>WaitGroup := wg\<rparr>), pn)))"

text \<open>
  Modelled from the spec: the \<open>stats\<close> package is not among the sources. A
  handler returns one of these kinds.
\<close>

datatype StatType = S3Op | FileOp | ShellOp | Fail | AcceptableFail

text \<open>
  \<open>Job.Run\<close>. \<open>globalCmdRegistry\<close> is the map from operation to handler, and
  \<open>IncrementIfSuccess\<close> is the method of the stats counter (both declared outside
  the sources, taken as parameters). A handler is taken by the kind and the error
  it returns. The help text written to stderr is not modelled. The result is the
  returned error (\<open>None\<close> is nil) and the worker parameters after the call.
\<close>

definition Run ::
  "(Operation \<rightharpoonup> (Job \<Rightarrow> 'wp \<Rightarrow> StatType \<times> error option)) \<Rightarrow>
   ('wp \<Rightarrow> StatType \<Rightarrow> error option \<Rightarrow> error option \<times> 'wp) \<Rightarrow>
   Job \<Rightarrow> 'wp \<Rightarrow> error option \<times> 'wp" where
  "Run globalCmdRegistry IncrementIfSuccess j wp =
     (if Has (opts j) Help then (Some ErrDisplayedHelp, wp)
      else
        (case globalCmdRegistry (operation j) of
           None \<Rightarrow> (Some (UnhandledOperation (operation j)), wp)
         | Some cmdFunc \<Rightarrow>
             (let (kind, err) = cmdFunc j wp
              in IncrementIfSuccess wp kind err)))"

subsection \<open>wildOperation\<close>

type_synonym wildCallback = "Item option \<Rightarrow> Job option"

text \<open>
  What one receive on the channel of \<open>wp.storage.List\<close> yields: the channel is
  closed, or a result with its \<open>Err\<close> and its \<open>Item\<close> (either may be nil).
\<close>

datatype lister_recv = Closed | Result "error option" "Item option"

text \<open>
  \<open>wildOperation\<close> starts two goroutines, the waiter (\<open>Wait()\<close>, then
  \<open>close(doneCh)\<close>) and the producer, and then blocks in a select; the workers
  of the pool run the sub-jobs. One execution is the sequence of the steps
  these goroutines took, in the order they took effect. Where the producer is
  in its loop:
\<close>

datatype producer_pc = Listing | Counting Job | Sending Job | ProducerReturned

text \<open>Where the waiter is: before \<open>Wait()\<close>, asleep in it, woken, or done.\<close>

datatype waiter_pc = Starting | Waiting | Released | ClosedDoneCh

text \<open>
  The steps:
  \<^item> \<open>Recv r\<close>: the producer received \<open>r\<close> and ran the callback; for a job it
    set \<open>subJobData\<close> and did \<open>Add(1)\<close>;
  \<^item> \<open>Count\<close>: the producer did \<open>subJobCounter++\<close>;
  \<^item> \<open>Send\<close>: the send on the sub-job queue went through;
  \<^item> \<open>Drop\<close>: the send lost against \<open>ctx.Done()\<close> and the producer returned;
  \<^item> \<open>Stop\<close>: the producer's outer select took \<open>ctx.Done()\<close>;
  \<^item> \<open>Work b\<close>: a worker took the next sub-job of this parent from the queue,
    ran it with outcome \<open>b\<close> and entered \<open>Notify b\<close>, up to the increment of
    \<open>numSuccess\<close>;
  \<^item> \<open>Done_call\<close>: a worker inside \<open>Notify\<close> did the first step of \<open>Done()\<close>;
  \<^item> \<open>Wake_waiters\<close>: a worker whose \<open>Done()\<close> reached zero with waiters did
    the second step;
  \<^item> \<open>Wait_step\<close>: the waiter entered \<open>Wait()\<close>, or woke up in it;
  \<^item> \<open>Cancel\<close>: the context was cancelled.
  A step whose goroutine is not at that point, or is blocked, changes nothing.
\<close>

datatype action =
    Recv lister_recv | Count | Send | Drop | Stop | Work bool | Done_call
  | Wake_waiters | Wait_step | Cancel

text \<open>
  The state of one call: the store holding \<open>subjobStats\<close>, the local
  \<open>subJobCounter\<close>, this parent's part of the sub-job queue, the producer, the
  sub-jobs whose workers are between the increment and \<open>Done()\<close>, the workers
  between the two steps of a \<open>Done()\<close> (with the address and the state they
  saw), the waiter, and whether the context is done. \<open>issued\<close> and
  \<open>notified\<close> are history variables: every sub-job the producer counted, and
  every sub-job whose worker entered \<open>Notify\<close>, with its outcome.
\<close>

record wild_state =
  heap :: stats_heap
  subJobCounter :: u32
  subJobQueue :: "Job list"
  producer :: producer_pc
  in_Done :: "Job list"
  waking :: "(addr \<times> WaitGroup_state) list"
  waiter :: waiter_pc
  ctx_done :: bool
  issued :: "Job list"
  notified :: "(Job \<times> bool) list"

definition wild_init :: "addr \<Rightarrow> stats_heap \<Rightarrow> wild_state" where
  "wild_init p h0 =
     \<lparr>heap = h0(p := \<lparr>WaitGroup = \<lparr>wg_counter = 0, wg_waiters = 0\<rparr>, numSuccess = 0\<rparr>),
      subJobCounter = 0, subJobQueue = [], producer = Listing, in_Done = [],
      waking = [], waiter = Starting, ctx_done = False, issued = [], notified = []\<rparr>"

text \<open>
  The lister case of the producer's select, up to \<open>subjobStats.Add(1)\<close>; \<open>p\<close>
  is \<open>&subjobStats\<close>.
\<close>

definition producer_Recv ::
  "addr \<Rightarrow> wildCallback \<Rightarrow> lister_recv \<Rightarrow> wild_state \<Rightarrow> panic + wild_state" where
  "producer_Recv p callback r st =
     (case r of
        Closed \<Rightarrow> Inr (st\<lparr>producer := ProducerReturned\<rparr>)
      | Result err item \<Rightarrow>
          if err \<noteq> None then Inr (st\<lparr>producer := ProducerReturned\<rparr>)
          else
            (case callback item of
               None \<Rightarrow> Inr st
             | Some j0 \<Rightarrow>
                 (let j = j0\<lparr>subJobData := Some p\<rparr>;
                      (wg, pn) = wg_Add 1 (WaitGroup (heap st p))
                  in case pn of
                       Some e \<Rightarrow> Inl e
                     | None \<Rightarrow>
                         Inr (st\<lparr>heap := (heap st)(p := (heap st p)\<lparr>WaitGroup := wg\<rparr>),
                                 producer := Counting j\<rparr>))))"

text \<open>
  Modelled from the spec: the worker is not among the sources. On receipt of a
  job it runs the handler and, if the job has parent statistics, notifies them.
  \<open>worker_Notify\<close> is the receipt and the call of \<open>Notify\<close> up to the increment,
  \<open>worker_Done\<close> and \<open>worker_Wake\<close> are the two steps of its \<open>Done()\<close>.
\<close>

definition worker_Notify :: "bool \<Rightarrow> wild_state \<Rightarrow> wild_state" where
  "worker_Notify b st =
     (case subJobQueue st of
        [] \<Rightarrow> st
      | j # q \<Rightarrow>
          (case subJobData j of
             None \<Rightarrow> st\<lparr>subJobQueue := q, notified := notified st @ [(j, b)]\<rparr>
           | Some pj \<Rightarrow>
               st\<lparr>heap := count_success b pj (heap st), subJobQueue := q,
                  in_Done := in_Done st @ [j], notified := notified st @ [(j, b)]\<rparr>))"

definition worker_Done :: "wild_state \<Rightarrow> panic + wild_state" where
  "worker_Done st =
     (case in_Done st of
        [] \<Rightarrow> Inr st
      | j # js \<Rightarrow>
          (case subJobData j of
             None \<Rightarrow> Inr (st\<lparr>in_Done := js\<rparr>)
           | Some pj \<Rightarrow>
               (case wg_Add_first (- 1) (WaitGroup (heap st pj)) of
                  (wg, res) \<Rightarrow>
                    (let h = (heap st)(pj := (heap st pj)\<lparr>WaitGroup := wg\<rparr>)
                     in case res of
                          AddPanics e \<Rightarrow> Inl e
                        | AddReturns \<Rightarrow> Inr (st\<lparr>heap := h, in_Done := js\<rparr>)
                        | AddWakes \<Rightarrow>
                            Inr (st\<lparr>heap := h, in_Done := js,
                                    waking := waking st @ [(pj, wg)]\<rparr>)))))"

definition worker_Wake :: "addr \<Rightarrow> wild_state \<Rightarrow> panic + wild_state" where
  "worker_Wake p st =
     (case waking st of
        [] \<Rightarrow> Inr st
      | (pj, seen) # ws \<Rightarrow>
          (case wg_Add_second seen (WaitGroup (heap st pj)) of
             (wg, Some e) \<Rightarrow> Inl e
           | (wg, None) \<Rightarrow>
               Inr (st\<lparr>heap := (heap st)(pj := (heap st pj)\<lparr>WaitGroup := wg\<rparr>),
                       waking := ws,
                       waiter := (if pj = p \<and> waiter st = Waiting then Released
                                  else waiter st)\<rparr>)))"

text \<open>
  The waiter: \<open>Wait()\<close> returns at once on a zero counter, else registers as a
  waiter and sleeps; woken, it panics unless the state is zero (WaitGroup is
  reused before previous Wait has returned); after \<open>Wait()\<close> it closes
  \<open>doneCh\<close>.
\<close>

definition waiter_step :: "addr \<Rightarrow> wild_state \<Rightarrow> panic + wild_state" where
  "waiter_step p st =
     (case waiter st of
        Starting \<Rightarrow>
          if wg_counter (WaitGroup (heap st p)) = 0 then Inr (st\<lparr>waiter := ClosedDoneCh\<rparr>)
          else Inr (st\<lparr>heap := (heap st)(p := (heap st p)\<lparr>WaitGroup :=
                          (WaitGroup (heap st p))\<lparr>wg_waiters :=
                             wg_waiters (WaitGroup (heap st p)) + 1\<rparr>\<rparr>),
                       waiter := Waiting\<rparr>)
      | Waiting \<Rightarrow> Inr st
      | Released \<Rightarrow>
          if WaitGroup (heap st p) \<noteq> \<lparr>wg_counter = 0, wg_waiters = 0\<rparr>
          then Inl WaitGroupReused
          else Inr (st\<lparr>waiter := ClosedDoneCh\<rparr>)
      | ClosedDoneCh \<Rightarrow> Inr st)"

fun step :: "addr \<Rightarrow> wildCallback \<Rightarrow> action \<Rightarrow> wild_state \<Rightarrow> panic + wild_state" where
  "step p callback (Recv r) st =
     (if producer st = Listing then producer_Recv p callback r st else Inr st)"
| "step p callback Count st =
     (case producer st of
        Counting j \<Rightarrow>
          Inr (st\<lparr>subJobCounter := subJobCounter st + 1, producer := Sending j,
                  issued := issued st @ [j]\<rparr>)
      | _ \<Rightarrow> Inr st)"
| "step p callback Send st =
     (case producer st of
        Sending j \<Rightarrow> Inr (st\<lparr>subJobQueue := subJobQueue st @ [j], producer := Listing\<rparr>)
      | _ \<Rightarrow> Inr st)"
| "step p callback Drop st =
     (case producer st of
        Sending j \<Rightarrow> if ctx_done st then Inr (st\<lparr>producer := ProducerReturned\<rparr>) else Inr st
      | _ \<Rightarrow> Inr st)"
| "step p callback Stop st =
     (if producer st = Listing \<and> ctx_done st then Inr (st\<lparr>producer := ProducerReturned\<rparr>)
      else Inr st)"
| "step p callback (Work b) st = Inr (worker_Notify b st)"
| "step p callback Done_call st = worker_Done st"
| "step p callback Wake_waiters st = worker_Wake p st"
| "step p callback Wait_step st = waiter_step p st"
| "step p callback Cancel st = Inr (st\<lparr>ctx_done := True\<rparr>)"

text \<open>A panic in any goroutine ends the process.\<close>

fun run :: "addr \<Rightarrow> wildCallback \<Rightarrow> action list \<Rightarrow> wild_state \<Rightarrow> panic + wild_state" where
  "run p callback [] st = Inr st"
| "run p callback (a # as) st =
     (case step p callback a st of
        Inl e \<Rightarrow> Inl e
      | Inr st1 \<Rightarrow> run p callback as st1)"

text \<open>
  The final select of the coordinator: the case it took, and whether that case
  is ready (\<open>doneCh\<close> closed, the context done).
\<close>

datatype wake = DoneCh | CtxDone

definition wake_ready :: "wake \<Rightarrow> wild_state \<Rightarrow> bool" where
  "wake_ready w st =
     (case w of DoneCh \<Rightarrow> waiter st = ClosedDoneCh | CtxDone \<Rightarrow> ctx_done st)"

text \<open>What the call has done by the end of an execution.\<close>

datatype outcome = Blocked | Returned "error option"

text \<open>
  \<open>wildOperation\<close>: \<open>s1\<close> is the execution up to the atomic load of
  \<open>numSuccess\<close>, which follows the select; \<open>s2\<close> are the steps of the other
  goroutines between the load and the read of \<open>subJobCounter\<close> in the
  comparison; \<open>s3\<close> are the steps between the comparison and the read of
  \<open>subJobCounter\<close> for the error. Both cases of the select are empty. The
  result is a panic, or that the coordinator is still blocked in the select, or
  the returned error (\<open>None\<close> is nil). \<open>p\<close> is the address of the fresh
  \<open>subjobStats\<close> and \<open>h0\<close> the store before the call.
\<close>

definition wildOperation ::
  "addr \<Rightarrow> stats_heap \<Rightarrow> wildCallback \<Rightarrow> wake \<Rightarrow> action list \<Rightarrow> action list \<Rightarrow>
   action list \<Rightarrow> panic + outcome" where
  "wildOperation p h0 callback w s1 s2 s3 =
     (case run p callback s1 (wild_init p h0) of
        Inl e \<Rightarrow> Inl e
      | Inr st1 \<Rightarrow>
          if \<not> wake_ready w st1 then Inr Blocked
          else
            (let s = numSuccess (heap st1 p) in
             case run p callback s2 st1 of
               Inl e \<Rightarrow> Inl e
             | Inr st2 \<Rightarrow>
                 if s \<noteq> subJobCounter st2 then
                   (case run p callback s3 st2 of
                      Inl e \<Rightarrow> Inl e
                    | Inr st3 \<Rightarrow> Inr (Returned (Some (NotAllCompleted s (subJobCounter st3)))))
                 else Inr (Returned None)))"

section \<open>main.go\<close>

text \<open>
  The \<open>flags\<close> package is declared outside the sources: the values \<open>main\<close>
  reads after \<open>flags.Parse()\<close>, and the positional arguments \<open>flag.Args()\<close>.
\<close>

record Flags =
  Args :: "string list"
  CommandFile :: string
  WorkerCount :: int
  UploadPartSize :: int
  RetryCount :: int
  EnableGops :: bool
  ShowVersion :: bool
  PrintStats :: bool
  Verbose :: bool

text \<open>
  What the calls before the checks returned: \<open>flags.Parse()\<close>,
  \<open>complete.ParseFlagsAndRun()\<close>, the variable \<open>S5CMD_GOPS\<close> and
  \<open>agent.Listen\<close>.
\<close>

record Startup =
  flags_Parse :: "error option"
  complete_done :: bool
  complete_err :: "error option"
  S5CMD_GOPS :: string
  agent_Listen :: "error option"

text \<open>
  What the worker manager left behind when \<open>RunCmd\<close> or \<open>Run\<close> returned: the
  code of the last call of \<open>exitFunc\<close>, if any, and \<open>s.Get(stats.Fail)\<close>.
\<close>

record Finished =
  exitFunc_code :: "int option"
  failops :: u64

text \<open>
  How the process ends: the code given to \<open>os.Exit\<close> (\<open>log.Fatal\<close> exits with
  1), and whether the worker manager was started.
\<close>

record Exit =
  exitCode :: int
  jobsRan :: bool

definition flag_Arg0 :: "string list \<Rightarrow> string" where
  "flag_Arg0 as = (case as of [] \<Rightarrow> [] | a # _ \<Rightarrow> a)"

text \<open>
  The worker manager is declared outside the sources: \<open>manager True cmd\<close> is
  \<open>wp.RunCmd(cmd)\<close> and \<open>manager False file\<close> is \<open>wp.Run(file)\<close>.
  \<open>run_manager\<close> is the branch on \<open>cmdMode\<close> that starts it.
\<close>

definition run_manager :: "Flags \<Rightarrow> (bool \<Rightarrow> string \<Rightarrow> Finished) \<Rightarrow> Finished" where
  "run_manager fl manager =
     (let cmd = join_sep '' '' (Args fl);
          cmdMode = (cmd \<noteq> [])
      in if cmdMode then manager True cmd else manager False (CommandFile fl))"

text \<open>\<open>main\<close>, from \<open>flags.Parse()\<close> to \<open>os.Exit(exitCode)\<close>.\<close>

definition main :: "Startup \<Rightarrow> Flags \<Rightarrow> (bool \<Rightarrow> string \<Rightarrow> Finished) \<Rightarrow> Exit" where
  "main su fl manager =
     (if flags_Parse su \<noteq> None then \<lparr>exitCode = 2, jobsRan = False\<rparr>
      else if complete_err su \<noteq> None then \<lparr>exitCode = 1, jobsRan = False\<rparr>
      else if complete_done su then \<lparr>exitCode = 0, jobsRan = False\<rparr>
      else if (EnableGops fl \<or> S5CMD_GOPS su \<noteq> []) \<and> agent_Listen su \<noteq> None
        then \<lparr>exitCode = 1, jobsRan = False\<rparr>
      else if ShowVersion fl then \<lparr>exitCode = 0, jobsRan = False\<rparr>
      else if flag_Arg0 (Args fl) = [] \<and> CommandFile fl = []
        then \<lparr>exitCode = 2, jobsRan = False\<rparr>
      else
        (let cmd = join_sep '' '' (Args fl) in
         if cmd \<noteq> [] \<and> CommandFile fl \<noteq> [] then \<lparr>exitCode = 1, jobsRan = False\<rparr>
         else if (cmd = [] \<and> CommandFile fl = []) \<or> WorkerCount fl = 0
                 \<or> UploadPartSize fl < 1 \<or> RetryCount fl < 0
           then \<lparr>exitCode = 1, jobsRan = False\<rparr>
         else
           (let fin = run_manager fl manager;
                exitCode0 = (case exitFunc_code fin of None \<Rightarrow> - 1 | Some code \<Rightarrow> code);
                exitCode1 = (if exitCode0 = - 1
                             then (if failops fin > 0 then 127 else 0)
                             else exitCode0)
            in \<lparr>exitCode = exitCode1, jobsRan = True\<rparr>)))"

section \<open>Vocabulary of the results\<close>

text \<open>
  The invariant of an execution of \<open>wildOperation\<close> in which no goroutine has
  panicked: the success counter and \<open>subJobCounter\<close> are the 32-bit images of
  the numbers of successful notifications and of counted sub-jobs; the sub-jobs
  notified, queued or about to be sent have all been counted; and every sub-job
  the producer holds or has queued points at the statistics of this call.
\<close>

definition pending_send :: "producer_pc \<Rightarrow> nat" where
  "pending_send pc = (case pc of Sending j \<Rightarrow> 1 | _ \<Rightarrow> 0)"

definition carries :: "addr \<Rightarrow> producer_pc \<Rightarrow> bool" where
  "carries p pc =
     (case pc of Counting j \<Rightarrow> subJobData j = Some p
               | Sending j \<Rightarrow> subJobData j = Some p
               | _ \<Rightarrow> True)"

definition wild_inv :: "addr \<Rightarrow> wild_state \<Rightarrow> bool" where
  "wild_inv p st \<longleftrightarrow>
     numSuccess (heap st p) = of_nat (length (filter snd (notified st))) \<and>
     subJobCounter st = of_nat (length (issued st)) \<and>
     length (notified st) + length (subJobQueue st) + pending_send (producer st)
       \<le> length (issued st) \<and>
     list_all (\<lambda>j. subJobData j = Some p) (subJobQueue st) \<and>
     carries p (producer st)"

text \<open>
  Everything is processed: the producer has returned, nothing is queued, no
  worker is inside \<open>Notify\<close>, and every counted sub-job has been notified.
\<close>

definition all_processed :: "wild_state \<Rightarrow> bool" where
  "all_processed st =
     (producer st = ProducerReturned \<and> subJobQueue st = [] \<and> in_Done st = [] \<and>
      waking st = [] \<and> length (notified st) = length (issued st))"

text \<open>
  What an execution has reached, from the start of the call: the numbers of
  sub-jobs counted, notified and notified as successful (0 after a panic);
  whether everything is processed and \<open>doneCh\<close> is closed; whether the context
  is done; whether no goroutine has panicked.
\<close>

definition issued_count :: "addr \<Rightarrow> stats_heap \<Rightarrow> wildCallback \<Rightarrow> action list \<Rightarrow> nat" where
  "issued_count p h0 cb s =
     (case run p cb s (wild_init p h0) of Inl e \<Rightarrow> 0 | Inr st \<Rightarrow> length (issued st))"

definition notified_count :: "addr \<Rightarrow> stats_heap \<Rightarrow> wildCallback \<Rightarrow> action list \<Rightarrow> nat" where
  "notified_count p h0 cb s =
     (case run p cb s (wild_init p h0) of Inl e \<Rightarrow> 0 | Inr st \<Rightarrow> length (notified st))"

definition success_count :: "addr \<Rightarrow> stats_heap \<Rightarrow> wildCallback \<Rightarrow> action list \<Rightarrow> nat" where
  "success_count p h0 cb s =
     (case run p cb s (wild_init p h0) of
        Inl e \<Rightarrow> 0
      | Inr st \<Rightarrow> length (filter snd (notified st)))"

definition processed :: "addr \<Rightarrow> stats_heap \<Rightarrow> wildCallback \<Rightarrow> action list \<Rightarrow> bool" where
  "processed p h0 cb s =
     (case run p cb s (wild_init p h0) of
        Inl e \<Rightarrow> False
      | Inr st \<Rightarrow> all_processed st \<and> waiter st = ClosedDoneCh)"

definition cancelled :: "addr \<Rightarrow> stats_heap \<Rightarrow> wildCallback \<Rightarrow> action list \<Rightarrow> bool" where
  "cancelled p h0 cb s =
     (case run p cb s (wild_init p h0) of Inl e \<Rightarrow> False | Inr st \<Rightarrow> ctx_done st)"

definition survives :: "addr \<Rightarrow> stats_heap \<Rightarrow> wildCallback \<Rightarrow> action list \<Rightarrow> bool" where
  "survives p h0 cb s =
     (case run p cb s (wild_init p h0) of Inl e \<Rightarrow> False | Inr st \<Rightarrow> True)"


text \<open>
  An item sent by \<open>s3list\<close> is the nil sentinel, or carries the key that
  \<open>Match\<close> returned for the key of its object.
\<close>

definition matched :: "matcher \<Rightarrow> s3listItem option \<Rightarrow> bool" where
  "matched Match x =
     (case x of None \<Rightarrow> True | Some it \<Rightarrow> Match (Object_Key (Object it)) = (key it, True))"

text \<open>
  The items a page contributes: one directory item per matching common prefix,
  then one item per matching object.
\<close>

definition prefix_items :: "matcher \<Rightarrow> string list \<Rightarrow> s3listItem list" where
  "prefix_items Match cs =
     map (\<lambda>c. \<lparr>Object = \<lparr>Object_Key = c, Object_Size = None\<rparr>, key = fst (Match c),
               isDirectory = True\<rparr>)
         (filter (\<lambda>c. snd (Match c)) cs)"

definition content_items :: "matcher \<Rightarrow> s3_Object list \<Rightarrow> s3listItem list" where
  "content_items Match cs =
     map (\<lambda>c. \<lparr>Object = c, key = fst (Match (Object_Key c)),
               isDirectory = (last (fst (Match (Object_Key c))) = CHR ''/'')\<rparr>)
         (filter (\<lambda>c. snd (Match (Object_Key c))) cs)"

definition page_items :: "matcher \<Rightarrow> ListObjectsV2Output \<Rightarrow> s3listItem list" where
  "page_items Match pg =
     prefix_items Match (CommonPrefixes pg) @ content_items Match (Contents pg)"

text \<open>No matching object of the list gets an empty matched key.\<close>

definition nonempty_matches :: "matcher \<Rightarrow> s3_Object list \<Rightarrow> bool" where
  "nonempty_matches Match cs =
     list_all (\<lambda>c. \<not> (snd (Match (Object_Key c)) \<and> fst (Match (Object_Key c)) = [])) cs"

text \<open>
  A complete listing: every page but the last is truncated, the last is not.
\<close>

definition final_page_only_untruncated :: "ListObjectsV2Output list \<Rightarrow> bool" where
  "final_page_only_untruncated pages =
     (pages \<noteq> [] \<and> \<not> IsTruncated (last pages) \<and> list_all IsTruncated (butlast pages))"



text \<open>
  An invocation that gets past flag parsing, shell completion, the gops agent
  and \<open>-version\<close>.
\<close>

definition startup_passes :: "Startup \<Rightarrow> Flags \<Rightarrow> bool" where
  "startup_passes su fl =
     (flags_Parse su = None \<and> complete_err su = None \<and> \<not> complete_done su \<and>
      \<not> ((EnableGops fl \<or> S5CMD_GOPS su \<noteq> []) \<and> agent_Listen su \<noteq> None) \<and>
      \<not> ShowVersion fl)"

section \<open>Concrete inputs\<close>

text \<open>
  A wildcard download \<open>cp s3://bucket/logs/* out/\<close>, its callback, two listed
  items and a store of zeroed statistics.
\<close>

definition zero_heap :: stats_heap where
  "zero_heap = (\<lambda>_. \<lparr>WaitGroup = \<lparr>wg_counter = 0, wg_waiters = 0\<rparr>, numSuccess = 0\<rparr>)"

definition parent_job :: Job where
  "parent_job =
     \<lparr>sourceDesc = ''cp s3://bucket/logs/* out/'', command = ''cp'',
      operation = BatchDownload,
      args = [\<lparr>arg = ''s3://bucket/logs/*''\<rparr>, \<lparr>arg = ''out/''\<rparr>], opts = [],
      successCommand = None, failCommand = None, subJobData = None, isSubJob = False,
      numSuccess_ptr = Some 1, numFails_ptr = Some 2, numAcceptableFails_ptr = Some 3\<rparr>"

definition download_callback :: wildCallback where
  "download_callback item =
     (case item of
        None \<Rightarrow> None
      | Some it \<Rightarrow>
          Some (MakeSubJob parent_job ''cp'' Download [\<lparr>arg = Key it\<rparr>, \<lparr>arg = ''out/''\<rparr>] []))"

definition item_a :: Item where
  "item_a = \<lparr>Content = \<lparr>Object_Key = ''logs/a.txt'', Object_Size = Some 5\<rparr>,
             Key = ''a.txt'', IsDirectory = False\<rparr>"

definition item_b :: Item where
  "item_b = \<lparr>Content = \<lparr>Object_Key = ''logs/b.txt'', Object_Size = Some 7\<rparr>,
             Key = ''b.txt'', IsDirectory = False\<rparr>"

text \<open>
  Pieces of executions: the producer issues the sub-job of an item; a sub-job is
  issued, fails and is done; two sub-jobs of which the second fails, with the
  waiter asleep in between, up to the end of the listing and the closing of
  \<open>doneCh\<close>; two sub-jobs issued, one done, and the context cancelled.
\<close>

definition issue_a :: "action list" where
  "issue_a = [Recv (Result None (Some item_a)), Count, Send]"

definition issue_b :: "action list" where
  "issue_b = [Recv (Result None (Some item_b)), Count, Send]"

definition failing_cycle :: "action list" where
  "failing_cycle = issue_a @ [Work False, Done_call]"


definition cancelled_midway :: "action list" where
  "cancelled_midway = issue_a @ issue_b @ [Work True, Done_call, Cancel]"

definition no_stats :: "unit \<Rightarrow> StatType \<Rightarrow> error option \<Rightarrow> error option \<times> unit" where
  "no_stats wp kind err = (err, wp)"

text \<open>
  A matcher for the pattern \<open>logs/*\<close> that returns the key without the prefix
  \<open>logs/\<close>, a listing of two pages, a listing of one page, and the two
  constant choices of the select in \<open>emit\<close>.
\<close>

definition logs_Match :: matcher where
  "logs_Match k = (if HasPrefix k ''logs/'' then (drop 5 k, True) else ([], False))"

definition example_pages :: "ListObjectsV2Output list" where
  "example_pages =
     [\<lparr>CommonPrefixes = [''logs/2019/''],
       Contents = [\<lparr>Object_Key = ''logs/a.txt'', Object_Size = Some 5\<rparr>,
                   \<lparr>Object_Key = ''other/c.txt'', Object_Size = Some 9\<rparr>],
       IsTruncated = True\<rparr>,
      \<lparr>CommonPrefixes = [],
       Contents = [\<lparr>Object_Key = ''logs/b.txt'', Object_Size = Some 7\<rparr>],
       IsTruncated = False\<rparr>]"

definition single_page :: "ListObjectsV2Output list" where
  "single_page =
     [\<lparr>CommonPrefixes = [],
       Contents = [\<lparr>Object_Key = ''logs/a.txt'', Object_Size = Some 5\<rparr>,
                   \<lparr>Object_Key = ''logs/b.txt'', Object_Size = Some 7\<rparr>],
       IsTruncated = False\<rparr>]"

definition Done_wins :: "nat \<Rightarrow> bool" where
  "Done_wins t = True"

definition send_wins :: "nat \<Rightarrow> bool" where
  "send_wins t = False"

text \<open>
  A platform with slash-separated local paths, a download command into
  \<open>/tmp/out\<close> and a listed object.
\<close>

definition unix_platform :: platform where
  "unix_platform =
     \<lparr>filepath_Join = path_Join,
      filepath_Dir = (\<lambda>p. path_Clean (join_sep ''/'' (butlast (split_sep CHR ''/'' p)))),
      Base = (\<lambda>u. last (split_sep CHR ''/'' (Path u))),
      Absolute = Path,
      GetParams = (\<lambda>os. if Has os Parents then '' --parents'' else [])\<rparr>"

definition download_command :: Command where
  "download_command =
     \<lparr>Command.operation = BatchDownload, Command.opts = [],
      Command.dst = \<lparr>Scheme = ''file'', Bucket = [], Path = ''/tmp/out'', Prefix = [], Delimiter = []\<rparr>\<rparr>"

definition listed_object :: storage_Object where
  "listed_object =
     \<lparr>URL = \<lparr>Scheme = ''s3'', Bucket = ''bucket'', Path = ''logs/a.txt'', Prefix = [],
             Delimiter = []\<rparr>\<rparr>"

text \<open>
  An invocation \<open>ls s3://bucket\<close> with the default flags, and two worker
  managers that end without an exit command.
\<close>

definition plain_startup :: Startup where
  "plain_startup =
     \<lparr>flags_Parse = None, complete_done = False, complete_err = None, S5CMD_GOPS = [],
      agent_Listen = None\<rparr>"

definition ls_flags :: Flags where
  "ls_flags =
     \<lparr>Args = [''ls'', ''s3://bucket''], CommandFile = [], WorkerCount = 256,
      UploadPartSize = 50, RetryCount = 10, EnableGops = False, ShowVersion = False,
      PrintStats = False, Verbose = False\<rparr>"

definition failing_manager :: "bool \<Rightarrow> string \<Rightarrow> Finished" where
  "failing_manager cmdMode text = \<lparr>exitFunc_code = None, failops = 3\<rparr>"

definition clean_manager :: "bool \<Rightarrow> string \<Rightarrow> Finished" where
  "clean_manager cmdMode text = \<lparr>exitFunc_code = None, failops = 0\<rparr>"

section \<open>Results\<close>

lemmas wild_eval =
  wildOperation_def wake_ready_def wild_init_def producer_Recv_def worker_Notify_def
  worker_Done_def worker_Wake_def waiter_step_def count_success_def wg_Add_def
  wg_Add_first_def wg_Add_second_def download_callback_def MakeSubJob_def item_a_def
  item_b_def issue_a_def issue_b_def failing_cycle_def zero_heap_def Let_def
  processed_def all_processed_def cancelled_def survives_def issued_count_def
  notified_count_def success_count_def

lemmas list_eval =
  List_def List_page_def s3list_def s3list_page_def isCanceled_def emit_def ctx_Done_def
  logs_Match_def HasPrefix_def example_pages_def single_page_def Done_wins_def send_wins_def
  final_page_only_untruncated_def nonempty_matches_def matched_def sent_by_def Let_def

lemmas batch_eval =
  unix_platform_def download_command_def listed_object_def path_Join_def path_Clean_def
  IsRemote_def Has_def Let_def

lemmas main_eval =
  main_def run_manager_def flag_Arg0_def startup_passes_def plain_startup_def ls_flags_def
  failing_manager_def clean_manager_def Let_def

subsection \<open>The wildcard coordinator\<close>

lemma wild_inv_init: "wild_inv p (wild_init p h0)"
  by (simp add: wild_inv_def wild_init_def pending_send_def carries_def)

lemma producer_Recv_inv:
  assumes "wild_inv p st" "producer st = Listing" "producer_Recv p cb r st = Inr st1"
  shows "wild_inv p st1 \<and> issued st1 = issued st \<and> notified st1 = notified st"
proof (cases r)
  case Closed
  with assms show ?thesis
    by (auto simp: producer_Recv_def wild_inv_def pending_send_def carries_def)
next
  case (Result err item)
  with assms show ?thesis
    by (auto simp: producer_Recv_def wild_inv_def pending_send_def carries_def Let_def
             split: if_splits option.splits prod.splits)
qed

lemma worker_Notify_inv:
  assumes "wild_inv p st"
  shows "wild_inv p (worker_Notify b st) \<and> issued (worker_Notify b st) = issued st \<and>
         length (notified st) \<le> length (notified (worker_Notify b st))"
proof (cases "subJobQueue st")
  case Nil
  with assms show ?thesis by (simp add: worker_Notify_def)
next
  case (Cons j q)
  with assms have sj: "subJobData j = Some p" by (simp add: wild_inv_def)
  from assms Cons sj show ?thesis
    by (cases b) (auto simp: worker_Notify_def wild_inv_def count_success_def)
qed

lemma worker_Done_inv:
  assumes "wild_inv p st" "worker_Done st = Inr st1"
  shows "wild_inv p st1 \<and> issued st1 = issued st \<and> notified st1 = notified st"
  using assms
  by (auto simp: worker_Done_def wild_inv_def Let_def
           split: list.splits option.splits prod.splits Add_result.splits)

lemma worker_Wake_inv:
  assumes "wild_inv p st" "worker_Wake p st = Inr st1"
  shows "wild_inv p st1 \<and> issued st1 = issued st \<and> notified st1 = notified st"
  using assms
  by (auto simp: worker_Wake_def wild_inv_def Let_def
           split: list.splits option.splits prod.splits)

lemma waiter_step_inv:
  assumes "wild_inv p st" "waiter_step p st = Inr st1"
  shows "wild_inv p st1 \<and> issued st1 = issued st \<and> notified st1 = notified st"
  using assms
  by (auto simp: waiter_step_def wild_inv_def split: waiter_pc.splits if_splits)

lemma step_inv:
  assumes "wild_inv p st" "step p cb a st = Inr st1"
  shows "wild_inv p st1 \<and> length (issued st) \<le> length (issued st1) \<and>
         length (notified st) \<le> length (notified st1)"
proof (cases a)
  case (Recv r)
  with assms producer_Recv_inv[of p st cb r st1] show ?thesis by (auto split: if_splits)
next
  case Count
  with assms show ?thesis
    by (auto simp: wild_inv_def pending_send_def carries_def split: producer_pc.splits)
next
  case Send
  with assms show ?thesis
    by (auto simp: wild_inv_def pending_send_def carries_def split: producer_pc.splits)
next
  case Drop
  with assms show ?thesis
    by (auto simp: wild_inv_def pending_send_def carries_def split: producer_pc.splits if_splits)
next
  case Stop
  with assms show ?thesis
    by (auto simp: wild_inv_def pending_send_def carries_def split: if_splits)
next
  case (Work b)
  with assms worker_Notify_inv[OF assms(1), of b] show ?thesis by auto
next
  case Done_call
  with assms worker_Done_inv[of p st st1] show ?thesis by auto
next
  case Wake_waiters
  with assms worker_Wake_inv[of p st st1] show ?thesis by auto
next
  case Wait_step
  with assms waiter_step_inv[of p st st1] show ?thesis by auto
next
  case Cancel
  with assms show ?thesis by (auto simp: wild_inv_def)
qed

lemma run_inv:
  "wild_inv p st \<Longrightarrow> run p cb sched st = Inr st1 \<Longrightarrow>
   wild_inv p st1 \<and> length (issued st) \<le> length (issued st1) \<and>
   length (notified st) \<le> length (notified st1)"
proof (induction sched arbitrary: st)
  case Nil
  then show ?case by simp
next
  case (Cons a as)
  from Cons.prems(2) obtain st2 where s: "step p cb a st = Inr st2"
    and r: "run p cb as st2 = Inr st1"
    by (auto split: sum.splits)
  from step_inv[OF Cons.prems(1) s] Cons.IH[OF _ r] show ?case by fastforce
qed

lemma run_append:
  "run p cb (xs @ ys) st =
     (case run p cb xs st of Inl e \<Rightarrow> Inl e | Inr st1 \<Rightarrow> run p cb ys st1)"
  by (induction xs arbitrary: st) (auto split: sum.splits)

lemma u32_of_nat_eq_iff:
  "a < 2 ^ 32 \<Longrightarrow> b < 2 ^ 32 \<Longrightarrow> ((of_nat a :: u32) = of_nat b) = (a = b)"
  by (simp add: word_of_nat_eq_iff take_bit_nat_eq_self)









text \<open>
  C2, as stated: a coordinator cancelled before all sub-jobs complete returns
  \<open>ErrInterrupted\<close>. Two sub-jobs are issued, one is done, and the context is
  cancelled: the coordinator, woken by the context, does not return
  \<open>ErrInterrupted\<close>.
\<close>

theorem wildOperation_cancel_counterexample:
  "wildOperation 0 zero_heap download_callback CtxDone cancelled_midway [] []
     \<noteq> Inr (Returned (Some ErrInterrupted))
   \<and> cancelled 0 zero_heap download_callback cancelled_midway
   \<and> notified_count 0 zero_heap download_callback cancelled_midway = 1
   \<and> issued_count 0 zero_heap download_callback cancelled_midway = 2"
  by (simp add: cancelled_midway_def wild_eval)

text \<open>
  C2, as the code has it. \<open>wildOperation\<close> never returns \<open>ErrInterrupted\<close>. When
  the context is done by the time the coordinator loads the success counter,
  some counted sub-job has not been notified by then, no goroutine panics, and
  fewer than \<open>2 ^ 32\<close> sub-jobs are counted in all, \<open>wildOperation\<close> woken by
  the context returns the batch-incomplete error, with the number of successful
  sub-jobs at the load and the number counted when the error is made.
\<close>

theorem wildOperation_cancelled_incomplete:
  "wildOperation p h0 callback w s1 s2 s3 \<noteq> Inr (Returned (Some ErrInterrupted)) \<and>
   (cancelled p h0 callback s1 \<and> survives p h0 callback (s1 @ s2 @ s3) \<and>
    notified_count p h0 callback s1 < issued_count p h0 callback s1 \<and>
    issued_count p h0 callback (s1 @ s2 @ s3) < 2 ^ 32 \<longrightarrow>
      wildOperation p h0 callback CtxDone s1 s2 s3 =
        Inr (Returned (Some (NotAllCompleted
               (of_nat (success_count p h0 callback s1))
               (of_nat (issued_count p h0 callback (s1 @ s2 @ s3)))))))"
proof
  show "wildOperation p h0 callback w s1 s2 s3 \<noteq> Inr (Returned (Some ErrInterrupted))"
    by (auto simp: wildOperation_def Let_def split: sum.splits)
next
  show "cancelled p h0 callback s1 \<and> survives p h0 callback (s1 @ s2 @ s3) \<and>
    notified_count p h0 callback s1 < issued_count p h0 callback s1 \<and>
    issued_count p h0 callback (s1 @ s2 @ s3) < 2 ^ 32 \<longrightarrow>
      wildOperation p h0 callback CtxDone s1 s2 s3 =
        Inr (Returned (Some (NotAllCompleted
               (of_nat (success_count p h0 callback s1))
               (of_nat (issued_count p h0 callback (s1 @ s2 @ s3))))))"
  proof
    assume a: "cancelled p h0 callback s1 \<and> survives p h0 callback (s1 @ s2 @ s3) \<and>
      notified_count p h0 callback s1 < issued_count p h0 callback s1 \<and>
      issued_count p h0 callback (s1 @ s2 @ s3) < 2 ^ 32"
    then obtain st3 where r: "run p callback (s1 @ s2 @ s3) (wild_init p h0) = Inr st3"
      by (auto simp: survives_def split: sum.splits)
    then obtain st1 st2 where r1: "run p callback s1 (wild_init p h0) = Inr st1"
      and r2: "run p callback s2 st1 = Inr st2" and r3: "run p callback s3 st2 = Inr st3"
      by (auto simp: run_append split: sum.splits)
    from run_inv[OF wild_inv_init r1] have i1: "wild_inv p st1" by simp
    from run_inv[OF i1 r2] have i2: "wild_inv p st2"
      and m12: "length (issued st1) \<le> length (issued st2)" by simp_all
    from run_inv[OF i2 r3] have i3: "wild_inv p st3"
      and m23: "length (issued st2) \<le> length (issued st3)" by simp_all
    from a r1 have cd: "ctx_done st1" by (simp add: cancelled_def)
    from a r1 have lt: "length (notified st1) < length (issued st1)"
      by (simp add: notified_count_def issued_count_def)
    from a r have b3: "length (issued st3) < 2 ^ 32" by (simp add: issued_count_def)
    have "length (filter snd (notified st1)) \<le> length (notified st1)" by simp
    with lt m12 have ne: "length (filter snd (notified st1)) \<noteq> length (issued st2)"
      and bs: "length (filter snd (notified st1)) < length (issued st2)" by linarith+
    from b3 m23 have b2: "length (issued st2) < 2 ^ 32" by linarith
    from bs b2 have b1: "length (filter snd (notified st1)) < 2 ^ 32" by linarith
    from i1 have s: "numSuccess (heap st1 p) = of_nat (length (filter snd (notified st1)))"
      by (simp add: wild_inv_def)
    from i2 have n2: "subJobCounter st2 = of_nat (length (issued st2))"
      by (simp add: wild_inv_def)
    from i3 have n3: "subJobCounter st3 = of_nat (length (issued st3))"
      by (simp add: wild_inv_def)
    from r1 have sc: "success_count p h0 callback s1 = length (filter snd (notified st1))"
      by (simp add: success_count_def)
    from r have ic: "issued_count p h0 callback (s1 @ s2 @ s3) = length (issued st3)"
      by (simp add: issued_count_def)
    show "wildOperation p h0 callback CtxDone s1 s2 s3 =
        Inr (Returned (Some (NotAllCompleted
               (of_nat (success_count p h0 callback s1))
               (of_nat (issued_count p h0 callback (s1 @ s2 @ s3))))))"
      unfolding wildOperation_def sc ic
      using r1 r2 r3 cd s n2 n3 ne u32_of_nat_eq_iff[OF b1 b2]
      by (simp add: wake_ready_def Let_def)
  qed
qed

theorem wildOperation_cancelled_witness:
  "cancelled 0 zero_heap download_callback cancelled_midway
   \<and> survives 0 zero_heap download_callback (cancelled_midway @ [Stop] @ [])
   \<and> wildOperation 0 zero_heap download_callback CtxDone cancelled_midway [Stop] []
       = Inr (Returned (Some (NotAllCompleted 1 2)))"
proof -
  have a: "cancelled 0 zero_heap download_callback cancelled_midway"
    by (simp add: cancelled_midway_def wild_eval)
  have b: "survives 0 zero_heap download_callback (cancelled_midway @ [Stop] @ [])"
    by (simp add: cancelled_midway_def wild_eval)
  have c: "notified_count 0 zero_heap download_callback cancelled_midway
             < issued_count 0 zero_heap download_callback cancelled_midway"
    by (simp add: cancelled_midway_def wild_eval)
  have d: "issued_count 0 zero_heap download_callback (cancelled_midway @ [Stop] @ []) < 2 ^ 32"
    by (simp add: cancelled_midway_def wild_eval)
  have e: "success_count 0 zero_heap download_callback cancelled_midway = 1"
    by (simp add: cancelled_midway_def wild_eval)
  have f: "issued_count 0 zero_heap download_callback (cancelled_midway @ [Stop] @ []) = 2"
    by (simp add: cancelled_midway_def wild_eval)
  show ?thesis
    using a b c d e f
          wildOperation_cancelled_incomplete
            [of 0 zero_heap download_callback CtxDone cancelled_midway "[Stop]" "[]"]
    by simp
qed

text \<open>
  Other executions: a sub-job outstanding at the cancellation may be done before
  the coordinator loads the counter, and the call returns nil; a sub-job counted
  between the two reads of \<open>subJobCounter\<close> shows in the error only; without a
  ready case the coordinator stays blocked; an \<open>Add\<close> of the producer while a
  worker wakes the waiter, or before the woken waiter has looked at the state,
  panics in the WaitGroup.
\<close>

lemma wildOperation_nil_after_cancel:
  "wildOperation 0 zero_heap download_callback CtxDone
     (issue_a @ [Cancel, Stop, Work True, Done_call]) [] [] = Inr (Returned None)"
  by (simp add: wild_eval)

lemma wildOperation_error_changes_between_reads:
  "wildOperation 0 zero_heap download_callback CtxDone
     (issue_a @ [Cancel]) [] (issue_b) = Inr (Returned (Some (NotAllCompleted 0 2)))"
  by (simp add: wild_eval)

lemma wildOperation_blocked_without_wake:
  "wildOperation 0 zero_heap download_callback DoneCh issue_a [] [] = Inr Blocked"
  by (simp add: wild_eval)

lemma wildOperation_Add_during_wakeup_panics:
  "wildOperation 0 zero_heap download_callback DoneCh
     (issue_a @ [Wait_step, Work True, Done_call] @ issue_b) [] [] = Inl WaitGroupMisuse"
  by (simp add: wild_eval)

lemma wildOperation_Add_before_waiter_returns_panics:
  "wildOperation 0 zero_heap download_callback DoneCh
     (issue_a @ [Wait_step, Work True, Done_call, Wake_waiters] @ issue_b @ [Wait_step])
     [] [] = Inl WaitGroupReused"
  by (simp add: wild_eval)

subsection \<open>Notify\<close>

lemma wg_Done_effect:
  "wg_Add (- 1) wg =
     (\<lparr>wg_counter = wg_counter wg - 1,
       wg_waiters = (if wg_counter wg = 1 then 0 else wg_waiters wg)\<rparr>,
      if sint (wg_counter wg - 1) < 0 then Some NegativeWaitGroupCounter else None)"
proof -
  have z: "wg_counter wg - 1 = 0 \<longleftrightarrow> wg_counter wg = 1" by auto
  have n: "sint (wg_counter wg - 1) = 0 \<longleftrightarrow> wg_counter wg = 1"
    using z by (metis signed_eq_0_iff)
  show ?thesis
    using z n
    by (cases wg) (auto simp: wg_Add_def wg_Add_first_def wg_Add_second_def Let_def)
qed

text \<open>
  C3. For a job with nil \<open>subJobData\<close>, \<open>Notify\<close> changes nothing. For a job
  whose \<open>subJobData\<close> points at \<open>p\<close>, one call decrements the wait counter at
  \<open>p\<close> by exactly one (in 32 bits) whatever the success argument is,
  increments the success counter at \<open>p\<close> exactly when the argument is true,
  and leaves the rest of the store alone; the number of waiters is reset when
  the counter reaches zero, and \<open>Done()\<close> panics exactly when the new counter
  is negative.
\<close>

theorem Notify_effect:
  "(subJobData j = None \<longrightarrow> Notify success j h = (h, None)) \<and>
   (subJobData j = Some p \<longrightarrow>
      fst (Notify success j h) =
        h(p := \<lparr>WaitGroup =
                  \<lparr>wg_counter = wg_counter (WaitGroup (h p)) - 1,
                   wg_waiters = (if wg_counter (WaitGroup (h p)) = 1 then 0
                                 else wg_waiters (WaitGroup (h p)))\<rparr>,
                numSuccess = numSuccess (h p) + (if success then 1 else 0)\<rparr>) \<and>
      snd (Notify success j h) =
        (if sint (wg_counter (WaitGroup (h p)) - 1) < 0 then Some NegativeWaitGroupCounter
         else None))"
  by (auto simp: Notify_def count_success_def wg_Done_effect Let_def)

theorem Notify_effect_witness:
  "fst (Notify True (parent_job\<lparr>subJobData := Some 0\<rparr>)
          (zero_heap(0 := \<lparr>WaitGroup = \<lparr>wg_counter = 2, wg_waiters = 1\<rparr>, numSuccess = 0\<rparr>))) 0
     = \<lparr>WaitGroup = \<lparr>wg_counter = 1, wg_waiters = 1\<rparr>, numSuccess = 1\<rparr>
   \<and> fst (Notify False (parent_job\<lparr>subJobData := Some 0\<rparr>)
          (zero_heap(0 := \<lparr>WaitGroup = \<lparr>wg_counter = 1, wg_waiters = 1\<rparr>, numSuccess = 0\<rparr>))) 0
     = \<lparr>WaitGroup = \<lparr>wg_counter = 0, wg_waiters = 0\<rparr>, numSuccess = 0\<rparr>
   \<and> Notify True parent_job zero_heap = (zero_heap, None)"
  using Notify_effect [of "parent_job\<lparr>subJobData := Some 0\<rparr>" True
          "zero_heap(0 := \<lparr>WaitGroup = \<lparr>wg_counter = 2, wg_waiters = 1\<rparr>, numSuccess = 0\<rparr>)" 0]
        Notify_effect [of "parent_job\<lparr>subJobData := Some 0\<rparr>" False
          "zero_heap(0 := \<lparr>WaitGroup = \<lparr>wg_counter = 1, wg_waiters = 1\<rparr>, numSuccess = 0\<rparr>)" 0]
        Notify_effect [of parent_job True zero_heap 0]
  by (simp add: parent_job_def)

text \<open>At the least int32 the counter wraps and \<open>Done()\<close> does not panic.\<close>

lemma Notify_wraps_at_min_int32:
  "sint (2147483648 :: 32 word) = - 2147483648
   \<and> Notify False (parent_job\<lparr>subJobData := Some 0\<rparr>)
     (zero_heap(0 := \<lparr>WaitGroup = \<lparr>wg_counter = 2147483648, wg_waiters = 0\<rparr>, numSuccess = 0\<rparr>))
   = (zero_heap(0 := \<lparr>WaitGroup = \<lparr>wg_counter = 2147483647, wg_waiters = 0\<rparr>, numSuccess = 0\<rparr>),
      None)"
  by (simp add: Notify_def count_success_def wg_Done_effect parent_job_def)

subsection \<open>Job.Run\<close>

text \<open>
  C9, as stated: a job whose operation has no handler gets the error naming the
  unhandled operation. With the help option set, \<open>Run\<close> returns
  \<open>ErrDisplayedHelp\<close> before it looks the operation up.
\<close>

theorem Run_help_counterexample:
  "Run Map.empty no_stats (parent_job\<lparr>opts := [Help]\<rparr>) ()
     \<noteq> (Some (UnhandledOperation (operation (parent_job\<lparr>opts := [Help]\<rparr>))), ())"
  by (simp add: Run_def Has_def)

text \<open>
  C9, as the code has it. For a job whose operation has no handler, \<open>Run\<close>
  returns a non-nil error and leaves the worker parameters alone: the error
  naming the unhandled operation when the help option is not set, and
  \<open>ErrDisplayedHelp\<close> when it is.
\<close>

theorem Run_unhandled_operation:
  "globalCmdRegistry (operation j) = None \<Longrightarrow>
   Run globalCmdRegistry IncrementIfSuccess j wp =
     (Some (if Has (opts j) Help then ErrDisplayedHelp
            else UnhandledOperation (operation j)), wp)"
  by (simp add: Run_def)

theorem Run_unhandled_operation_witness:
  "Run Map.empty no_stats parent_job () = (Some (UnhandledOperation BatchDownload), ())
   \<and> Run Map.empty no_stats (parent_job\<lparr>opts := [Help]\<rparr>) () = (Some ErrDisplayedHelp, ())"
  using Run_unhandled_operation [of Map.empty parent_job no_stats "()"]
        Run_unhandled_operation [of Map.empty "parent_job\<lparr>opts := [Help]\<rparr>" no_stats "()"]
  by (simp add: parent_job_def Has_def)

subsection \<open>S3BatchDownload\<close>

text \<open>
  C4. The sub-job built for a listed object has as destination the destination
  of the command with its path joined, by \<open>path.Join\<close> for a remote destination
  and by \<open>filepath.Join\<close> for a local one, with the base name of the object, or
  with the whole path of the object when the option Parents is set.
\<close>

theorem S3BatchDownload_destination:
  "url_Job.dst (fst (S3BatchDownload pf cmnd object)) =
     Some ((Command.dst cmnd)
             \<lparr>Path := (if IsRemote (Command.dst cmnd) then path_Join else filepath_Join pf)
                        [Path (Command.dst cmnd),
                         if Has (Command.opts cmnd) Parents then Path (URL object)
                         else Base pf (URL object)]\<rparr>)"
  by (simp add: S3BatchDownload_def makeJob_def Clone_def Let_def)

theorem S3BatchDownload_destination_witness:
  "map_option Path (url_Job.dst (fst (S3BatchDownload unix_platform download_command listed_object)))
     = Some ''/tmp/out/a.txt''
   \<and> map_option Path (url_Job.dst (fst (S3BatchDownload unix_platform
         (download_command\<lparr>Command.opts := [Parents]\<rparr>) listed_object)))
     = Some ''/tmp/out/logs/a.txt''"
  using S3BatchDownload_destination [of unix_platform download_command listed_object]
        S3BatchDownload_destination
          [of unix_platform "download_command\<lparr>Command.opts := [Parents]\<rparr>" listed_object]
  by (simp add: batch_eval)

subsection \<open>ListBuckets\<close>

lemma ListBuckets_loop_replicate:
  "ListBuckets_loop pre bs acc =
     acc @ replicate (length (filter (\<lambda>b. pre = [] \<or> HasPrefix (Name b) pre) bs)) pre"
  by (induction bs arbitrary: acc) (simp_all add: replicate_app_Cons_same)

text \<open>
  C5. ListBuckets should return the names of the buckets whose name starts with
  the prefix. On the buckets alpha and beta with prefix al the code returns the
  prefix itself, [al], and not the bucket name [alpha]; with the empty prefix it
  returns two empty strings.
\<close>

theorem ListBuckets_returns_prefix_not_name:
  "ListBuckets (Inr [\<lparr>Name = ''alpha''\<rparr>, \<lparr>Name = ''beta''\<rparr>]) ''al'' = Inr [''al'']
   \<and> ListBuckets (Inr [\<lparr>Name = ''alpha''\<rparr>, \<lparr>Name = ''beta''\<rparr>]) ''al'' \<noteq> Inr [''alpha'']
   \<and> ListBuckets (Inr [\<lparr>Name = ''alpha''\<rparr>, \<lparr>Name = ''beta''\<rparr>]) [] = Inr [[], []]"
  by (simp add: ListBuckets_def HasPrefix_def)

subsection \<open>The S3 listers\<close>








lemma emit_never_cancelled:
  "emit None pick item st =
     (True, st\<lparr>emitChan := emitChan st @ [item], looks := Suc (looks st)\<rparr>)"
  by (simp add: emit_def ctx_Done_def)

lemma isCanceled_never_cancelled:
  "isCanceled None st = (False, st\<lparr>looks := Suc (looks st)\<rparr>)"
  by (simp add: isCanceled_def ctx_Done_def)

lemma s3list_prefixes_eq:
  "\<exists>st1. s3list_prefixes None pick Match cs st = (True, st1) \<and>
         emitChan st1 = emitChan st @ map Some (prefix_items Match cs) \<and>
         canceled st1 = canceled st"
proof (induction cs arbitrary: st)
  case Nil
  then show ?case by (simp add: prefix_items_def)
next
  case (Cons c cs)
  show ?case
  proof (cases "snd (Match c)")
    case False
    with Cons.IH[of st] show ?thesis
      by (auto simp: prefix_items_def split: prod.splits)
  next
    case True
    let ?it = "\<lparr>Object = \<lparr>Object_Key = c, Object_Size = None\<rparr>, key = fst (Match c),
                isDirectory = True\<rparr>"
    let ?st = "st\<lparr>emitChan := emitChan st @ [Some ?it], looks := Suc (looks st)\<rparr>"
    from Cons.IH[of ?st] obtain st1 where
      a: "s3list_prefixes None pick Match cs ?st = (True, st1)" and
      b: "emitChan st1 = emitChan ?st @ map Some (prefix_items Match cs)" and
      c: "canceled st1 = canceled ?st" by blast
    from True a b c show ?thesis
      by (auto simp: prefix_items_def emit_never_cancelled split: prod.splits)
  qed
qed

lemma s3list_contents_eq:
  "nonempty_matches Match cs \<Longrightarrow>
   \<exists>st1. s3list_contents None pick Match cs st = Inr (True, st1) \<and>
         emitChan st1 = emitChan st @ map Some (content_items Match cs) \<and>
         canceled st1 = canceled st"
proof (induction cs arbitrary: st)
  case Nil
  then show ?case by (simp add: content_items_def)
next
  case (Cons c cs)
  from Cons.prems have ne: "nonempty_matches Match cs"
    and hd: "\<not> (snd (Match (Object_Key c)) \<and> fst (Match (Object_Key c)) = [])"
    by (simp_all add: nonempty_matches_def)
  show ?case
  proof (cases "snd (Match (Object_Key c))")
    case False
    with Cons.IH[OF ne, of st] show ?thesis
      by (auto simp: content_items_def split: prod.splits)
  next
    case True
    let ?k = "fst (Match (Object_Key c))"
    let ?it = "\<lparr>Object = c, key = ?k, isDirectory = (last ?k = CHR ''/'')\<rparr>"
    let ?st = "st\<lparr>emitChan := emitChan st @ [Some ?it], looks := Suc (looks st)\<rparr>"
    from Cons.IH[OF ne, of ?st] obtain st1 where
      a: "s3list_contents None pick Match cs ?st = Inr (True, st1)" and
      b: "emitChan st1 = emitChan ?st @ map Some (content_items Match cs)" and
      c: "canceled st1 = canceled ?st" by blast
    from True hd a b c show ?thesis
      by (auto simp: content_items_def emit_never_cancelled split: prod.splits)
  qed
qed

lemma s3list_page_eq:
  assumes "nonempty_matches Match (Contents pg)"
  shows "\<exists>st1. s3list_page None pick Match pg st = Inr (True, st1) \<and>
           emitChan st1 = emitChan st @ map Some (page_items Match pg)
                            @ (if IsTruncated pg then [] else [None]) \<and>
           canceled st1 = canceled st"
proof -
  let ?st0 = "st\<lparr>looks := Suc (looks st)\<rparr>"
  from s3list_prefixes_eq[of pick Match "CommonPrefixes pg" ?st0] obtain st1 where
    p: "s3list_prefixes None pick Match (CommonPrefixes pg) ?st0 = (True, st1)" and
    pe: "emitChan st1 = emitChan ?st0 @ map Some (prefix_items Match (CommonPrefixes pg))" and
    pc: "canceled st1 = canceled ?st0" by blast
  from s3list_contents_eq[OF assms, of pick st1] obtain st2 where
    c: "s3list_contents None pick Match (Contents pg) st1 = Inr (True, st2)" and
    ce: "emitChan st2 = emitChan st1 @ map Some (content_items Match (Contents pg))" and
    cc: "canceled st2 = canceled st1" by blast
  show ?thesis
    unfolding s3list_page_def
    using p pe pc c ce cc
    by (simp add: isCanceled_never_cancelled emit_never_cancelled page_items_def Let_def)
qed



lemma List_never_returns_on_complete_listing:
  "final_page_only_untruncated pages \<Longrightarrow> List_pages Match pages \<noteq> Continues"
proof (induction pages)
  case Nil
  then show ?case by (simp add: final_page_only_untruncated_def)
next
  case (Cons pg pgs)
  show ?case
  proof (cases pgs)
    case Nil
    with Cons.prems have "\<not> IsTruncated pg" by (simp add: final_page_only_untruncated_def)
    with Nil show ?thesis
      by (auto simp: List_page_def split: callback_result.splits)
  next
    case (Cons q qs)
    with Cons.prems have "final_page_only_untruncated pgs"
      by (simp add: final_page_only_untruncated_def)
    from Cons.IH[OF this] show ?thesis
      by (auto split: callback_result.splits)
  qed
qed

lemma List_blocks_or_panics_on_complete_listing:
  "final_page_only_untruncated pages \<Longrightarrow> List Match pages err \<noteq> ListReturns e"
  using List_never_returns_on_complete_listing[of pages Match]
  by (auto simp: List_def split: callback_result.splits)




text \<open>
  When the send wins the select of \<open>emit\<close> against the done context, the
  cancelled \<open>s3list\<close> still sends everything. The listers do not guard the
  index into the matched key: under a context that is never cancelled
  \<open>s3list\<close> panics exactly when the matcher returns an empty key for some
  matching object, as the matcher for \<open>logs/*\<close> does on the key \<open>logs/\<close>.
\<close>

lemma s3list_cancelled_send_may_win:
  "s3list (Some 2) send_wins logs_Match single_page None =
     Inr ([Some \<lparr>Object = \<lparr>Object_Key = ''logs/a.txt'', Object_Size = Some 5\<rparr>,
                 key = ''a.txt'', isDirectory = False\<rparr>,
           Some \<lparr>Object = \<lparr>Object_Key = ''logs/b.txt'', Object_Size = Some 7\<rparr>,
                 key = ''b.txt'', isDirectory = False\<rparr>,
           None], Some ErrInterrupted)"
  by (simp add: list_eval)

lemma listers_panic_on_empty_matched_key:
  "List logs_Match
     [\<lparr>CommonPrefixes = [], Contents = [\<lparr>Object_Key = ''logs/'', Object_Size = Some 0\<rparr>],
       IsTruncated = False\<rparr>] None = ListPanics IndexOutOfRange
   \<and> s3list None send_wins logs_Match
     [\<lparr>CommonPrefixes = [], Contents = [\<lparr>Object_Key = ''logs/'', Object_Size = Some 0\<rparr>],
       IsTruncated = False\<rparr>] None = Inl (IndexOutOfRange, [])"
  by (simp add: list_eval)

lemma s3list_contents_panics_iff:
  "(\<exists>st1. s3list_contents None pick Match cs st = Inl (IndexOutOfRange, st1))
     \<longleftrightarrow> \<not> nonempty_matches Match cs"
proof (induction cs arbitrary: st)
  case Nil
  then show ?case by (simp add: nonempty_matches_def)
next
  case (Cons c cs)
  obtain k ok where m: "Match (Object_Key c) = (k, ok)" by (cases "Match (Object_Key c)")
  from Cons.IH show ?case
    using m by (auto simp: nonempty_matches_def emit_never_cancelled)
qed

lemma s3list_page_panics_iff:
  "(\<exists>st1. s3list_page None pick Match pg st = Inl (IndexOutOfRange, st1))
     \<longleftrightarrow> \<not> nonempty_matches Match (Contents pg)"
proof (cases "nonempty_matches Match (Contents pg)")
  case True
  with s3list_page_eq[OF True, of pick st] show ?thesis by auto
next
  case False
  from s3list_prefixes_eq[of pick Match "CommonPrefixes pg" "st\<lparr>looks := Suc (looks st)\<rparr>"]
  obtain st1 where
    p: "s3list_prefixes None pick Match (CommonPrefixes pg) (st\<lparr>looks := Suc (looks st)\<rparr>)
          = (True, st1)" by blast
  from False s3list_contents_panics_iff[of pick Match "Contents pg" st1] obtain st2 where
    "s3list_contents None pick Match (Contents pg) st1 = Inl (IndexOutOfRange, st2)" by blast
  with p False show ?thesis
    by (auto simp: s3list_page_def isCanceled_never_cancelled)
qed

lemma s3list_panics_iff:
  "(\<exists>xs. s3list None pick Match pages err = Inl (IndexOutOfRange, xs))
     \<longleftrightarrow> \<not> list_all (\<lambda>pg. nonempty_matches Match (Contents pg)) pages"
proof -
  have "(\<exists>st1. s3list_pages None pick Match pages st = Inl (IndexOutOfRange, st1))
          \<longleftrightarrow> \<not> list_all (\<lambda>pg. nonempty_matches Match (Contents pg)) pages" for st
  proof (induction pages arbitrary: st)
    case Nil
    then show ?case by simp
  next
    case (Cons pg pgs)
    show ?case
    proof (cases "nonempty_matches Match (Contents pg)")
      case True
      from s3list_page_eq[OF True, of pick st] obtain st1 where
        "s3list_page None pick Match pg st = Inr (True, st1)" by blast
      with True Cons.IH[of st1] show ?thesis by simp
    next
      case False
      with s3list_page_panics_iff[of pick Match pg st] obtain st1 where
        "s3list_page None pick Match pg st = Inl (IndexOutOfRange, st1)" by blast
      with False show ?thesis by simp
    qed
  qed
  from this[of "\<lparr>emitChan = [], canceled = False, looks = 0\<rparr>"] show ?thesis
    by (auto simp: s3list_def split: sum.splits)
qed

subsection \<open>main\<close>

text \<open>
  C7. A run that started the worker manager and ended without a call of the exit
  function exits with code 127 if the counter of failures is greater than zero,
  and with code 0 otherwise.
\<close>

theorem main_exit_code_without_exit_command:
  assumes "jobsRan (main su fl manager)"
      and "exitFunc_code (run_manager fl manager) = None"
  shows "exitCode (main su fl manager) =
           (if 0 < failops (run_manager fl manager) then 127 else 0)"
proof -
  let ?cmd = "join_sep '' '' (Args fl)"
  from assms(1) have g: "flags_Parse su = None" "complete_err su = None" "\<not> complete_done su"
      "\<not> ((EnableGops fl \<or> S5CMD_GOPS su \<noteq> []) \<and> agent_Listen su \<noteq> None)"
      "\<not> ShowVersion fl" "\<not> (flag_Arg0 (Args fl) = [] \<and> CommandFile fl = [])"
      "\<not> (?cmd \<noteq> [] \<and> CommandFile fl \<noteq> [])"
      "\<not> ((?cmd = [] \<and> CommandFile fl = []) \<or> WorkerCount fl = 0
           \<or> UploadPartSize fl < 1 \<or> RetryCount fl < 0)"
    by (auto simp: main_def Let_def split: if_split_asm)
  show ?thesis
    unfolding main_def Let_def using g assms(2) by auto
qed

theorem main_exit_code_witness:
  "jobsRan (main plain_startup ls_flags failing_manager)
   \<and> exitFunc_code (run_manager ls_flags failing_manager) = None
   \<and> exitCode (main plain_startup ls_flags failing_manager) = 127
   \<and> exitCode (main plain_startup ls_flags clean_manager) = 0"
proof -
  have a: "jobsRan (main plain_startup ls_flags failing_manager)" by (simp add: main_eval)
  have b: "exitFunc_code (run_manager ls_flags failing_manager) = None" by (simp add: main_eval)
  have c: "jobsRan (main plain_startup ls_flags clean_manager)" by (simp add: main_eval)
  have d: "exitFunc_code (run_manager ls_flags clean_manager) = None" by (simp add: main_eval)
  show ?thesis
    using a b main_exit_code_without_exit_command [OF a b]
          main_exit_code_without_exit_command [OF c d]
    by (simp add: run_manager_def ls_flags_def failing_manager_def clean_manager_def)
qed

text \<open>
  C8, as stated: an invalid configuration exits with code 2, and a worker count
  below 1 is invalid. A worker count of 0, and a command together with a command
  file, end in \<open>log.Fatal\<close>, which exits with code 1; a negative worker count
  passes the checks of \<open>main\<close> and the worker manager starts.
\<close>

theorem main_invalid_configuration_counterexample:
  "exitCode (main plain_startup (ls_flags\<lparr>WorkerCount := 0\<rparr>) clean_manager) \<noteq> 2
   \<and> exitCode (main plain_startup (ls_flags\<lparr>CommandFile := ''cmds.txt''\<rparr>) clean_manager) \<noteq> 2
   \<and> jobsRan (main plain_startup (ls_flags\<lparr>WorkerCount := - 1\<rparr>) clean_manager)"
  by (simp add: main_eval)

text \<open>
  C8, as the code has it. An invocation that gets past the start-up with a worker
  count of 0, a negative retry count, an upload chunk size below 1, or both a
  command and a command file, is rejected before the worker manager starts; the
  exit code is 2 when neither a command nor a command file was given and 1
  otherwise.
\<close>

theorem main_rejects_invalid_configuration:
  assumes "startup_passes su fl"
      and "WorkerCount fl = 0 \<or> RetryCount fl < 0 \<or> UploadPartSize fl < 1 \<or>
           (join_sep '' '' (Args fl) \<noteq> [] \<and> CommandFile fl \<noteq> [])"
  shows "main su fl manager =
           \<lparr>exitCode = (if flag_Arg0 (Args fl) = [] \<and> CommandFile fl = [] then 2 else 1),
            jobsRan = False\<rparr>"
  using assms by (auto simp: main_def startup_passes_def Let_def)

theorem main_rejects_invalid_configuration_witness:
  "startup_passes plain_startup (ls_flags\<lparr>WorkerCount := 0\<rparr>)
   \<and> WorkerCount (ls_flags\<lparr>WorkerCount := 0\<rparr>) = 0
   \<and> main plain_startup (ls_flags\<lparr>WorkerCount := 0\<rparr>) clean_manager
       = \<lparr>exitCode = 1, jobsRan = False\<rparr>
   \<and> main plain_startup (ls_flags\<lparr>Args := [], RetryCount := - 1\<rparr>) clean_manager
       = \<lparr>exitCode = 2, jobsRan = False\<rparr>"
proof -
  have a: "startup_passes plain_startup (ls_flags\<lparr>WorkerCount := 0\<rparr>)"
    by (simp add: main_eval)
  have b: "WorkerCount (ls_flags\<lparr>WorkerCount := 0\<rparr>) = 0 \<or>
           RetryCount (ls_flags\<lparr>WorkerCount := 0\<rparr>) < 0 \<or>
           UploadPartSize (ls_flags\<lparr>WorkerCount := 0\<rparr>) < 1 \<or>
           (join_sep '' '' (Args (ls_flags\<lparr>WorkerCount := 0\<rparr>)) \<noteq> [] \<and>
            CommandFile (ls_flags\<lparr>WorkerCount := 0\<rparr>) \<noteq> [])"
    by simp
  have c: "startup_passes plain_startup (ls_flags\<lparr>Args := [], RetryCount := - 1\<rparr>)"
    by (simp add: main_eval)
  have d: "WorkerCount (ls_flags\<lparr>Args := [], RetryCount := - 1\<rparr>) = 0 \<or>
           RetryCount (ls_flags\<lparr>Args := [], RetryCount := - 1\<rparr>) < 0 \<or>
           UploadPartSize (ls_flags\<lparr>Args := [], RetryCount := - 1\<rparr>) < 1 \<or>
           (join_sep '' '' (Args (ls_flags\<lparr>Args := [], RetryCount := - 1\<rparr>)) \<noteq> [] \<and>
            CommandFile (ls_flags\<lparr>Args := [], RetryCount := - 1\<rparr>) \<noteq> [])"
    by simp
  show ?thesis
    using a main_rejects_invalid_configuration [OF a b, of clean_manager]
          main_rejects_invalid_configuration [OF c d, of clean_manager]
    by (simp add: flag_Arg0_def ls_flags_def)
qed

end
